theory Spec2Isabelle
  imports Main "HOL-Library.Multiset"
begin

section \<open>Data model (app/models.py, app/schemas.py)\<close>

text \<open>
  A calendar date (\<^verbatim>\<open>datetime.date\<close>) is modelled by its proleptic Gregorian ordinal
  (\<^verbatim>\<open>date.toordinal()\<close>): the code only compares dates for equality and order.
\<close>

type_synonym date = nat

text \<open>
  The two tables. \<open>e_id\<close> and \<open>a_id\<close> are the autoincrement primary keys (column \<open>id\<close>);
  the other fields carry the column names with the prefix of their table.
\<close>

record Employee =
  e_id :: nat
  e_employee_id :: string
  e_full_name :: string
  e_email :: string
  e_department :: string

record Attendance =
  a_id :: nat
  a_employee_id :: string
  a_date :: date
  a_is_present :: bool

text \<open>
  The request bodies. \<open>AttendanceResponse\<close> has exactly the columns of \<open>Attendance\<close> and
  \<open>EmployeeResponse\<close> exactly those of \<open>Employee\<close>, so a response is the row itself.
\<close>

record EmployeeCreate =
  ec_employee_id :: string
  ec_full_name :: string
  ec_email :: string
  ec_department :: string

record AttendanceCreate =
  ac_employee_id :: string
  ac_date :: date
  ac_is_present :: bool

record AttendanceSummary =
  s_employee_id :: string
  s_full_name :: string
  total_present_days :: nat
  total_absent_days :: nat

text \<open>
  The store: both tables in insertion order, and the next value of each autoincrement
  counter.
\<close>

record store =
  employees :: "Employee list"
  attendance :: "Attendance list"
  employees_autoincrement :: nat
  attendance_autoincrement :: nat

definition empty_store :: store where
  "empty_store =
     \<lparr>employees = [], attendance = [], employees_autoincrement = 1,
      attendance_autoincrement = 1\<rparr>"

section \<open>Failures\<close>

text \<open>
  \<open>HTTPException n\<close> is a response with status code \<open>n\<close> (the detail text is left out).
  404 is the spec's NotFound, 409 its Conflict, 400 and 422 its Validation: 400 is raised
  by the handlers, 422 is the framework's answer to a body that fails its schema.
\<close>

datatype http_error = HTTPException nat

abbreviation HTTP_400_BAD_REQUEST :: nat where "HTTP_400_BAD_REQUEST \<equiv> 400"
abbreviation HTTP_404_NOT_FOUND :: nat where "HTTP_404_NOT_FOUND \<equiv> 404"
abbreviation HTTP_409_CONFLICT :: nat where "HTTP_409_CONFLICT \<equiv> 409"
abbreviation HTTP_422_UNPROCESSABLE_ENTITY :: nat where "HTTP_422_UNPROCESSABLE_ENTITY \<equiv> 422"

text \<open>
  What \<^verbatim>\<open>db.commit()\<close> can raise: \<open>IntegrityError\<close> when a constraint of models.py is
  violated, or any other exception, with its text.
\<close>

datatype db_exception = IntegrityError | OtherException string

section \<open>The store's constraints (app/models.py)\<close>

text \<open>
  The session and the engine behind it (app/database.py, the ORM and the relational
  engine) are not among the sources. What a commit does is taken from the columns and
  constraints that models.py declares: primary keys count up, unique columns and the
  unique pair refuse a duplicate, the foreign key refuses an unknown employee_id and
  cascades a delete. Strings compare by plain equality.
\<close>

text \<open>
  \<^verbatim>\<open>db.add(db_employee); db.commit()\<close>. The insert is refused with
  \<open>IntegrityError\<close> when \<open>employee_id\<close> or \<open>email\<close> is already taken (both columns are
  \<^verbatim>\<open>unique=True\<close>); otherwise the row gets the next primary key. \<open>fault\<close> stands for a failure
  of the store that has nothing to do with the constraints (a lost connection, a value too
  long for its column): \<open>None\<close> when the store is healthy.
\<close>

definition commit_employee ::
  "string option \<Rightarrow> store \<Rightarrow> EmployeeCreate \<Rightarrow> db_exception + (Employee \<times> store)" where
  "commit_employee fault db employee =
     (case fault of
        Some msg \<Rightarrow> Inl (OtherException msg)
      | None \<Rightarrow>
          if ec_employee_id employee \<in> e_employee_id ` set (employees db)
             \<or> ec_email employee \<in> e_email ` set (employees db)
          then Inl IntegrityError
          else
            let db_employee =
                  \<lparr>e_id = employees_autoincrement db,
                   e_employee_id = ec_employee_id employee,
                   e_full_name = ec_full_name employee,
                   e_email = ec_email employee,
                   e_department = ec_department employee\<rparr>
            in Inr (db_employee,
                    db\<lparr>employees := employees db @ [db_employee],
                       employees_autoincrement := Suc (employees_autoincrement db)\<rparr>))"

text \<open>
  \<^verbatim>\<open>db.add(db_attendance); db.commit()\<close>. The insert is refused
  with \<open>IntegrityError\<close> when the pair (employee_id, date) is already taken
  (\<^verbatim>\<open>UniqueConstraint("employee_id", "date")\<close>) or when no employee has that employee_id
  (\<^verbatim>\<open>ForeignKey("employees.employee_id")\<close>).
\<close>

definition commit_attendance ::
  "string option \<Rightarrow> store \<Rightarrow> AttendanceCreate \<Rightarrow> db_exception + (Attendance \<times> store)" where
  "commit_attendance fault db attendance_in =
     (case fault of
        Some msg \<Rightarrow> Inl (OtherException msg)
      | None \<Rightarrow>
          if (ac_employee_id attendance_in, ac_date attendance_in)
               \<in> (\<lambda>r. (a_employee_id r, a_date r)) ` set (attendance db)
             \<or> ac_employee_id attendance_in \<notin> e_employee_id ` set (employees db)
          then Inl IntegrityError
          else
            let db_attendance =
                  \<lparr>a_id = attendance_autoincrement db,
                   a_employee_id = ac_employee_id attendance_in,
                   a_date = ac_date attendance_in,
                   a_is_present = ac_is_present attendance_in\<rparr>
            in Inr (db_attendance,
                    db\<lparr>attendance := attendance db @ [db_attendance],
                       attendance_autoincrement := Suc (attendance_autoincrement db)\<rparr>))"

text \<open>
  \<^verbatim>\<open>db.refresh(row)\<close> runs after a commit that succeeded and reads the row back. It changes
  nothing in the store; \<open>refresh_fault\<close> stands for a failure of the store at that moment
  (a lost connection), \<open>None\<close> when the store is healthy.
\<close>

definition refresh :: "string option \<Rightarrow> 'row \<Rightarrow> db_exception + 'row" where
  "refresh refresh_fault row =
     (case refresh_fault of
        Some msg \<Rightarrow> Inl (OtherException msg)
      | None \<Rightarrow> Inr row)"

text \<open>
  \<^verbatim>\<open>db.delete(employee); db.commit()\<close>: the row with that primary key goes, and with it every
  attendance row of its employee_id (\<^verbatim>\<open>cascade="all, delete-orphan"\<close> over the join on
  employee_id, and \<^verbatim>\<open>ondelete="CASCADE"\<close>), in one commit.
\<close>

definition commit_delete :: "store \<Rightarrow> Employee \<Rightarrow> store" where
  "commit_delete db employee =
     db\<lparr>employees := filter (\<lambda>e. e_id e \<noteq> e_id employee) (employees db),
        attendance :=
          filter (\<lambda>r. a_employee_id r \<noteq> e_employee_id employee) (attendance db)\<rparr>"

text \<open>\<^verbatim>\<open>query.order_by(Attendance.date.desc()).all()\<close>; rows of one date keep no promised order.\<close>

definition order_by_date_desc :: "Attendance list \<Rightarrow> Attendance list" where
  "order_by_date_desc rs = rev (sort_key a_date rs)"

section \<open>Employee service (app/routers/employees.py)\<close>

text \<open>
  \<open>create_employee seen fault refresh_fault db employee\<close>: the two uniqueness queries read
  \<open>seen\<close>, the commit runs on \<open>db\<close>. A request that runs alone has \<open>seen = db\<close>; a request
  that races with another one commits on a store that has moved on since its queries. The
  result is the response and the store after the request. The \<^verbatim>\<open>try\<close> block holds the commit
  and, after it, the refresh: an exception of either is caught by the same \<^verbatim>\<open>except\<close> branches
  (\<open>create_employee_except\<close>), which call \<^verbatim>\<open>db.rollback()\<close>. When the commit raised, nothing
  was written and the store is \<open>db\<close> as it was; when the commit succeeded and the refresh
  raised, the rollback has nothing left to undo and the store is the committed one.
\<close>

fun create_employee_except :: "db_exception \<Rightarrow> http_error" where
  "create_employee_except IntegrityError = HTTPException HTTP_400_BAD_REQUEST"
| "create_employee_except (OtherException msg) = HTTPException HTTP_400_BAD_REQUEST"

definition create_employee ::
  "store \<Rightarrow> string option \<Rightarrow> string option \<Rightarrow> store \<Rightarrow> EmployeeCreate
     \<Rightarrow> (http_error + Employee) \<times> store" where
  "create_employee seen fault refresh_fault db employee =
     (if find (\<lambda>e. e_employee_id e = ec_employee_id employee) (employees seen) \<noteq> None
      then (Inl (HTTPException HTTP_409_CONFLICT), db)
      else if find (\<lambda>e. e_email e = ec_email employee) (employees seen) \<noteq> None
      then (Inl (HTTPException HTTP_409_CONFLICT), db)
      else
        (case commit_employee fault db employee of
           Inl exn \<Rightarrow> (Inl (create_employee_except exn), db)
         | Inr (db_employee, db') \<Rightarrow>
             (case refresh refresh_fault db_employee of
                Inl exn \<Rightarrow> (Inl (create_employee_except exn), db')
              | Inr refreshed \<Rightarrow> (Inr refreshed, db'))))"

definition list_employees :: "store \<Rightarrow> Employee list" where
  "list_employees db = employees db"

definition get_employee :: "store \<Rightarrow> string \<Rightarrow> http_error + Employee" where
  "get_employee db employee_id =
     (case find (\<lambda>e. e_employee_id e = employee_id) (employees db) of
        None \<Rightarrow> Inl (HTTPException HTTP_404_NOT_FOUND)
      | Some employee \<Rightarrow> Inr employee)"

definition delete_employee :: "store \<Rightarrow> string \<Rightarrow> (http_error + unit) \<times> store" where
  "delete_employee db employee_id =
     (case find (\<lambda>e. e_employee_id e = employee_id) (employees db) of
        None \<Rightarrow> (Inl (HTTPException HTTP_404_NOT_FOUND), db)
      | Some employee \<Rightarrow> (Inr (), commit_delete db employee))"

text \<open>
  \<^verbatim>\<open>if start_date:\<close> and \<^verbatim>\<open>if end_date:\<close> test a \<^verbatim>\<open>datetime.date\<close>, which is never falsy:
  each bound is applied exactly when it is given.
\<close>

definition get_employee_attendance ::
  "store \<Rightarrow> string \<Rightarrow> date option \<Rightarrow> date option \<Rightarrow> http_error + Attendance list" where
  "get_employee_attendance db employee_id start_date end_date =
     (case find (\<lambda>e. e_employee_id e = employee_id) (employees db) of
        None \<Rightarrow> Inl (HTTPException HTTP_404_NOT_FOUND)
      | Some employee \<Rightarrow>
          let query = filter (\<lambda>r. a_employee_id r = employee_id) (attendance db);
              query1 = (case start_date of
                          Some d \<Rightarrow> filter (\<lambda>r. d \<le> a_date r) query
                        | None \<Rightarrow> query);
              query2 = (case end_date of
                          Some d \<Rightarrow> filter (\<lambda>r. a_date r \<le> d) query1
                        | None \<Rightarrow> query1)
          in Inr (order_by_date_desc query2))"

text \<open>
  \<^verbatim>\<open>db.query(func.count(Attendance.id)).filter(...).scalar() or 0\<close>: \<open>scalar\<close> gives the count
  (or nothing), and \<^verbatim>\<open>or 0\<close> turns nothing into 0.
\<close>

definition count_scalar :: "(Attendance \<Rightarrow> bool) \<Rightarrow> store \<Rightarrow> nat option" where
  "count_scalar cond db = Some (length (filter cond (attendance db)))"

fun or_0 :: "nat option \<Rightarrow> nat" where
  "or_0 None = 0"
| "or_0 (Some n) = n"

definition get_attendance_summary :: "store \<Rightarrow> string \<Rightarrow> http_error + AttendanceSummary" where
  "get_attendance_summary db employee_id =
     (case find (\<lambda>e. e_employee_id e = employee_id) (employees db) of
        None \<Rightarrow> Inl (HTTPException HTTP_404_NOT_FOUND)
      | Some employee \<Rightarrow>
          let present_count =
                or_0 (count_scalar
                  (\<lambda>r. a_employee_id r = employee_id \<and> a_is_present r = True) db);
              absent_count =
                or_0 (count_scalar
                  (\<lambda>r. a_employee_id r = employee_id \<and> a_is_present r = False) db)
          in Inr \<lparr>s_employee_id = e_employee_id employee,
                  s_full_name = e_full_name employee,
                  total_present_days = present_count,
                  total_absent_days = absent_count\<rparr>)"

section \<open>Attendance service (app/routers/attendance.py)\<close>

text \<open>
  \<open>mark_attendance seen fault refresh_fault db attendance_in\<close>: the employee query and the
  duplicate query read \<open>seen\<close>, the commit runs on \<open>db\<close>, and the refresh follows a commit
  that succeeded, inside the same \<^verbatim>\<open>try\<close> block (see \<open>create_employee\<close>).
\<close>

fun mark_attendance_except :: "db_exception \<Rightarrow> http_error" where
  "mark_attendance_except IntegrityError = HTTPException HTTP_409_CONFLICT"
| "mark_attendance_except (OtherException msg) = HTTPException HTTP_400_BAD_REQUEST"

definition mark_attendance ::
  "store \<Rightarrow> string option \<Rightarrow> string option \<Rightarrow> store \<Rightarrow> AttendanceCreate
     \<Rightarrow> (http_error + Attendance) \<times> store" where
  "mark_attendance seen fault refresh_fault db attendance_in =
     (if find (\<lambda>e. e_employee_id e = ac_employee_id attendance_in) (employees seen) = None
      then (Inl (HTTPException HTTP_404_NOT_FOUND), db)
      else if find (\<lambda>r. a_employee_id r = ac_employee_id attendance_in
                         \<and> a_date r = ac_date attendance_in) (attendance seen) \<noteq> None
      then (Inl (HTTPException HTTP_409_CONFLICT), db)
      else
        (case commit_attendance fault db attendance_in of
           Inl exn \<Rightarrow> (Inl (mark_attendance_except exn), db)
         | Inr (db_attendance, db') \<Rightarrow>
             (case refresh refresh_fault db_attendance of
                Inl exn \<Rightarrow> (Inl (mark_attendance_except exn), db')
              | Inr refreshed \<Rightarrow> (Inr refreshed, db'))))"

text \<open>
  \<^verbatim>\<open>if date:\<close> tests a \<^verbatim>\<open>datetime.date\<close>, never falsy; \<^verbatim>\<open>if employee_id:\<close> tests a string,
  and the empty string is falsy like \<open>None\<close>.
\<close>

definition list_attendance :: "store \<Rightarrow> date option \<Rightarrow> string option \<Rightarrow> Attendance list" where
  "list_attendance db date_filter employee_id =
     (let query = attendance db;
          query1 = (case date_filter of
                      Some d \<Rightarrow> filter (\<lambda>r. a_date r = d) query
                    | None \<Rightarrow> query);
          query2 = (case employee_id of
                      Some i \<Rightarrow>
                        if i \<noteq> [] then filter (\<lambda>r. a_employee_id r = i) query1 else query1
                    | None \<Rightarrow> query1)
      in order_by_date_desc query2)"

section \<open>Request validation (app/schemas.py)\<close>

text \<open>
  The framework parses the body against the schema before it calls the handler, and answers
  422 itself when the body does not fit. \<open>EmailStr\<close> is the external e-mail validator: it
  gives the normalised address, or nothing for a malformed one; it is a parameter here.
\<close>

definition validate_EmployeeCreate ::
  "(string \<Rightarrow> string option) \<Rightarrow> EmployeeCreate \<Rightarrow> EmployeeCreate option" where
  "validate_EmployeeCreate EmailStr body =
     (if 1 \<le> length (ec_employee_id body) \<and> length (ec_employee_id body) \<le> 50
         \<and> 1 \<le> length (ec_full_name body) \<and> length (ec_full_name body) \<le> 100
         \<and> 1 \<le> length (ec_department body) \<and> length (ec_department body) \<le> 100
      then (case EmailStr (ec_email body) of
              None \<Rightarrow> None
            | Some email \<Rightarrow> Some (body\<lparr>ec_email := email\<rparr>))
      else None)"

definition validate_AttendanceCreate :: "AttendanceCreate \<Rightarrow> AttendanceCreate option" where
  "validate_AttendanceCreate body =
     (if 1 \<le> length (ac_employee_id body) \<and> length (ac_employee_id body) \<le> 50
      then Some body else None)"

text \<open>\<^verbatim>\<open>POST /api/employees\<close> and \<^verbatim>\<open>POST /api/attendance\<close>: validation, then the handler.\<close>

definition post_employees ::
  "(string \<Rightarrow> string option) \<Rightarrow> store \<Rightarrow> string option \<Rightarrow> string option \<Rightarrow> store
     \<Rightarrow> EmployeeCreate \<Rightarrow> (http_error + Employee) \<times> store" where
  "post_employees EmailStr seen fault refresh_fault db body =
     (case validate_EmployeeCreate EmailStr body of
        None \<Rightarrow> (Inl (HTTPException HTTP_422_UNPROCESSABLE_ENTITY), db)
      | Some employee \<Rightarrow> create_employee seen fault refresh_fault db employee)"

definition post_attendance ::
  "store \<Rightarrow> string option \<Rightarrow> string option \<Rightarrow> store \<Rightarrow> AttendanceCreate
     \<Rightarrow> (http_error + Attendance) \<times> store" where
  "post_attendance seen fault refresh_fault db body =
     (case validate_AttendanceCreate body of
        None \<Rightarrow> (Inl (HTTPException HTTP_422_UNPROCESSABLE_ENTITY), db)
      | Some attendance_in \<Rightarrow> mark_attendance seen fault refresh_fault db attendance_in)"

section \<open>Reachable stores\<close>

text \<open>
  The stores the API can bring about from the empty one. Only the three writing routes
  change the store; the reading routes return no store. The queries of a writing request
  may have read any store \<open>seen\<close>, and its commit and its refresh may meet any fault.
\<close>

inductive reachable :: "(string \<Rightarrow> string option) \<Rightarrow> store \<Rightarrow> bool"
  for EmailStr :: "string \<Rightarrow> string option" where
  init: "reachable EmailStr empty_store"
| create: "reachable EmailStr db \<Longrightarrow>
     reachable EmailStr (snd (post_employees EmailStr seen fault refresh_fault db body))"
| delete: "reachable EmailStr db \<Longrightarrow>
     reachable EmailStr (snd (delete_employee db employee_id))"
| mark: "reachable EmailStr db \<Longrightarrow>
     reachable EmailStr (snd (post_attendance seen fault refresh_fault db body))"

section \<open>The integrity rules of the store\<close>

text \<open>
  Unique employee_id, unique email, unique (employee_id, date), every attendance row owned
  by an employee; and, for the bookkeeping, no empty employee_id, unique primary keys of
  employees, all below the counter.
\<close>

definition store_inv :: "store \<Rightarrow> bool" where
  "store_inv db \<longleftrightarrow>
     distinct (map e_employee_id (employees db)) \<and>
     distinct (map e_email (employees db)) \<and>
     distinct (map (\<lambda>r. (a_employee_id r, a_date r)) (attendance db)) \<and>
     a_employee_id ` set (attendance db) \<subseteq> e_employee_id ` set (employees db) \<and>
     [] \<notin> e_employee_id ` set (employees db) \<and>
     distinct (map e_id (employees db)) \<and>
     list_all (\<lambda>e. e_id e < employees_autoincrement db) (employees db)"

section \<open>A worked scenario\<close>

text \<open>
  Concrete stores for evaluating the operations. \<open>ex_EmailStr\<close> is a stand-in for the e-mail
  validator (it accepts what contains an at sign and normalises nothing). The dates are
  2024-01-01 (738886), 2024-01-02 (738887) and 2024-01-03 (738888).
\<close>

definition ex_EmailStr :: "string \<Rightarrow> string option" where
  "ex_EmailStr a = (if CHR ''@'' \<in> set a then Some a else None)"

definition ex_alice :: EmployeeCreate where
  "ex_alice =
     \<lparr>ec_employee_id = ''E001'', ec_full_name = ''Alice'', ec_email = ''alice@x.com'',
      ec_department = ''Eng''\<rparr>"

definition ex_bob :: EmployeeCreate where
  "ex_bob =
     \<lparr>ec_employee_id = ''E002'', ec_full_name = ''Bob'', ec_email = ''bob@x.com'',
      ec_department = ''Ops''\<rparr>"

definition ex_mark :: "string \<Rightarrow> date \<Rightarrow> bool \<Rightarrow> AttendanceCreate" where
  "ex_mark i d p = \<lparr>ac_employee_id = i, ac_date = d, ac_is_present = p\<rparr>"

text \<open>Alice is created, then marked present on 2024-01-01.\<close>

definition ex_db1 :: store where
  "ex_db1 = snd (post_employees ex_EmailStr empty_store None None empty_store ex_alice)"

definition ex_db2 :: store where
  "ex_db2 = snd (post_attendance ex_db1 None None ex_db1 (ex_mark ''E001'' 738886 True))"


text \<open>
  Bob is created and marked present on 2024-01-02; Alice is marked absent on 2024-01-02 and
  present on 2024-01-03.
\<close>

definition ex_db3 :: store where
  "ex_db3 = snd (post_employees ex_EmailStr ex_db2 None None ex_db2 ex_bob)"

definition ex_db4 :: store where
  "ex_db4 = snd (post_attendance ex_db3 None None ex_db3 (ex_mark ''E002'' 738887 True))"

definition ex_db5 :: store where
  "ex_db5 = snd (post_attendance ex_db4 None None ex_db4 (ex_mark ''E001'' 738887 False))"

definition ex_db6 :: store where
  "ex_db6 = snd (post_attendance ex_db5 None None ex_db5 (ex_mark ''E001'' 738888 True))"

section \<open>Lemmas about queries, commits and the integrity rules\<close>

lemma find_None_image: "(find (\<lambda>x. f x = k) xs = None) \<longleftrightarrow> k \<notin> f ` set xs"
  by (auto simp: find_None_iff)

lemma find_Some_key: "find (\<lambda>x. f x = k) xs = Some y \<Longrightarrow> y \<in> set xs \<and> f y = k"
  by (auto simp: find_Some_iff)

lemma store_inv_empty: "store_inv empty_store"
  by (simp add: store_inv_def empty_store_def)

lemma commit_employee_Inr:
  assumes "commit_employee fault db employee = Inr (e, db')"
  shows "fault = None"
    and "ec_employee_id employee \<notin> e_employee_id ` set (employees db)"
    and "ec_email employee \<notin> e_email ` set (employees db)"
    and "e = \<lparr>e_id = employees_autoincrement db,
               e_employee_id = ec_employee_id employee,
               e_full_name = ec_full_name employee,
               e_email = ec_email employee,
               e_department = ec_department employee\<rparr>"
    and "db' = db\<lparr>employees := employees db @ [e],
                  employees_autoincrement := Suc (employees_autoincrement db)\<rparr>"
  using assms
  by (auto simp: commit_employee_def Let_def split: option.splits if_splits)

lemma commit_attendance_Inr:
  assumes "commit_attendance fault db attendance_in = Inr (r, db')"
  shows "fault = None"
    and "(ac_employee_id attendance_in, ac_date attendance_in)
           \<notin> (\<lambda>r. (a_employee_id r, a_date r)) ` set (attendance db)"
    and "ac_employee_id attendance_in \<in> e_employee_id ` set (employees db)"
    and "r = \<lparr>a_id = attendance_autoincrement db,
               a_employee_id = ac_employee_id attendance_in,
               a_date = ac_date attendance_in,
               a_is_present = ac_is_present attendance_in\<rparr>"
    and "db' = db\<lparr>attendance := attendance db @ [r],
                  attendance_autoincrement := Suc (attendance_autoincrement db)\<rparr>"
  using assms
  by (auto simp: commit_attendance_def Let_def split: option.splits if_splits)

lemma commit_employee_inv:
  assumes inv: "store_inv db" and ok: "commit_employee fault db employee = Inr (e, db')"
    and ne: "ec_employee_id employee \<noteq> []"
  shows "store_inv db'"
proof -
  note f = commit_employee_Inr [OF ok]
  have e: "e_employee_id e = ec_employee_id employee" "e_email e = ec_email employee"
    "e_id e = employees_autoincrement db"
    by (simp_all add: f(4))
  have emps: "employees db' = employees db @ [e]" and att: "attendance db' = attendance db"
    and cnt: "employees_autoincrement db' = Suc (employees_autoincrement db)"
    by (simp_all add: f(5))
  have below: "\<forall>x \<in> set (employees db). e_id x < employees_autoincrement db"
    using inv by (simp add: store_inv_def list_all_iff)
  then have fresh: "e_id e \<notin> e_id ` set (employees db)"
    using e(3) by auto
  show ?thesis
    unfolding store_inv_def emps att cnt
    using inv f(2,3) e ne fresh below
    by (auto simp: store_inv_def list_all_iff less_Suc_eq)
qed

lemma commit_attendance_inv:
  assumes inv: "store_inv db" and ok: "commit_attendance fault db attendance_in = Inr (r, db')"
  shows "store_inv db'"
proof -
  note f = commit_attendance_Inr [OF ok]
  have r: "a_employee_id r = ac_employee_id attendance_in" "a_date r = ac_date attendance_in"
    by (simp_all add: f(4))
  have emps: "employees db' = employees db" and att: "attendance db' = attendance db @ [r]"
    and cnt: "employees_autoincrement db' = employees_autoincrement db"
    by (simp_all add: f(5))
  show ?thesis
    unfolding store_inv_def emps att cnt
    using inv f(2,3) r
    by (auto simp: store_inv_def)
qed

lemma commit_delete_inv:
  assumes "store_inv db" and "employee \<in> set (employees db)"
  shows "store_inv (commit_delete db employee)"
proof -
  have inj: "inj_on e_id (set (employees db))"
    using assms(1) by (simp add: store_inv_def distinct_map)
  have fk: "a_employee_id ` set (filter (\<lambda>r. a_employee_id r \<noteq> e_employee_id employee) (attendance db))
        \<subseteq> e_employee_id ` set (filter (\<lambda>e. e_id e \<noteq> e_id employee) (employees db))"
  proof
    fix k assume "k \<in> a_employee_id ` set (filter (\<lambda>r. a_employee_id r \<noteq> e_employee_id employee) (attendance db))"
    then obtain r where r: "r \<in> set (attendance db)" "a_employee_id r \<noteq> e_employee_id employee" "k = a_employee_id r"
      by auto
    then obtain e where e: "e \<in> set (employees db)" "e_employee_id e = k"
      using assms(1) by (auto simp: store_inv_def)
    with r have "e \<noteq> employee" by auto
    with inj e assms(2) have "e_id e \<noteq> e_id employee" by (auto dest: inj_onD)
    with e show "k \<in> e_employee_id ` set (filter (\<lambda>e. e_id e \<noteq> e_id employee) (employees db))"
      by auto
  qed
  show ?thesis
    unfolding store_inv_def commit_delete_def
    using assms(1) fk
    by (auto simp: store_inv_def distinct_map_filter list_all_iff)
qed

lemmas ex_defs = ex_EmailStr_def ex_alice_def ex_bob_def ex_mark_def
lemmas op_defs = post_employees_def post_attendance_def validate_EmployeeCreate_def
  validate_AttendanceCreate_def create_employee_def mark_attendance_def
  commit_employee_def commit_attendance_def refresh_def Let_def

lemma ex_db1_eq:
  "ex_db1 =
     \<lparr>employees =
        [\<lparr>e_id = 1, e_employee_id = ''E001'', e_full_name = ''Alice'',
          e_email = ''alice@x.com'', e_department = ''Eng''\<rparr>],
      attendance = [], employees_autoincrement = 2, attendance_autoincrement = 1\<rparr>"
  by (simp add: ex_db1_def ex_defs op_defs empty_store_def)


lemma ex_db2_eq:
  "ex_db2 =
     \<lparr>employees =
        [\<lparr>e_id = 1, e_employee_id = ''E001'', e_full_name = ''Alice'',
          e_email = ''alice@x.com'', e_department = ''Eng''\<rparr>],
      attendance =
        [\<lparr>a_id = 1, a_employee_id = ''E001'', a_date = 738886, a_is_present = True\<rparr>],
      employees_autoincrement = 2, attendance_autoincrement = 2\<rparr>"
  by (simp add: ex_db2_def ex_db1_eq ex_defs op_defs)

lemma ex_db3_eq:
  "ex_db3 =
     \<lparr>employees =
        [\<lparr>e_id = 1, e_employee_id = ''E001'', e_full_name = ''Alice'',
          e_email = ''alice@x.com'', e_department = ''Eng''\<rparr>,
         \<lparr>e_id = 2, e_employee_id = ''E002'', e_full_name = ''Bob'',
          e_email = ''bob@x.com'', e_department = ''Ops''\<rparr>],
      attendance =
        [\<lparr>a_id = 1, a_employee_id = ''E001'', a_date = 738886, a_is_present = True\<rparr>],
      employees_autoincrement = 3, attendance_autoincrement = 2\<rparr>"
  by (simp add: ex_db3_def ex_db2_eq ex_defs op_defs)

lemma ex_db4_eq:
  "ex_db4 =
     \<lparr>employees =
        [\<lparr>e_id = 1, e_employee_id = ''E001'', e_full_name = ''Alice'',
          e_email = ''alice@x.com'', e_department = ''Eng''\<rparr>,
         \<lparr>e_id = 2, e_employee_id = ''E002'', e_full_name = ''Bob'',
          e_email = ''bob@x.com'', e_department = ''Ops''\<rparr>],
      attendance =
        [\<lparr>a_id = 1, a_employee_id = ''E001'', a_date = 738886, a_is_present = True\<rparr>,
         \<lparr>a_id = 2, a_employee_id = ''E002'', a_date = 738887, a_is_present = True\<rparr>],
      employees_autoincrement = 3, attendance_autoincrement = 3\<rparr>"
  by (simp add: ex_db4_def ex_db3_eq ex_defs op_defs)

lemma ex_db5_eq:
  "ex_db5 =
     \<lparr>employees =
        [\<lparr>e_id = 1, e_employee_id = ''E001'', e_full_name = ''Alice'',
          e_email = ''alice@x.com'', e_department = ''Eng''\<rparr>,
         \<lparr>e_id = 2, e_employee_id = ''E002'', e_full_name = ''Bob'',
          e_email = ''bob@x.com'', e_department = ''Ops''\<rparr>],
      attendance =
        [\<lparr>a_id = 1, a_employee_id = ''E001'', a_date = 738886, a_is_present = True\<rparr>,
         \<lparr>a_id = 2, a_employee_id = ''E002'', a_date = 738887, a_is_present = True\<rparr>,
         \<lparr>a_id = 3, a_employee_id = ''E001'', a_date = 738887, a_is_present = False\<rparr>],
      employees_autoincrement = 3, attendance_autoincrement = 4\<rparr>"
  by (simp add: ex_db5_def ex_db4_eq ex_defs op_defs)

lemma ex_db6_eq:
  "ex_db6 =
     \<lparr>employees =
        [\<lparr>e_id = 1, e_employee_id = ''E001'', e_full_name = ''Alice'',
          e_email = ''alice@x.com'', e_department = ''Eng''\<rparr>,
         \<lparr>e_id = 2, e_employee_id = ''E002'', e_full_name = ''Bob'',
          e_email = ''bob@x.com'', e_department = ''Ops''\<rparr>],
      attendance =
        [\<lparr>a_id = 1, a_employee_id = ''E001'', a_date = 738886, a_is_present = True\<rparr>,
         \<lparr>a_id = 2, a_employee_id = ''E002'', a_date = 738887, a_is_present = True\<rparr>,
         \<lparr>a_id = 3, a_employee_id = ''E001'', a_date = 738887, a_is_present = False\<rparr>,
         \<lparr>a_id = 4, a_employee_id = ''E001'', a_date = 738888, a_is_present = True\<rparr>],
      employees_autoincrement = 3, attendance_autoincrement = 5\<rparr>"
  by (simp add: ex_db6_def ex_db5_eq ex_defs op_defs)

lemma reachable_ex_db2: "reachable ex_EmailStr ex_db2"
  unfolding ex_db2_def ex_db1_def by (intro reachable.intros)

lemma reachable_ex_db6: "reachable ex_EmailStr ex_db6"
  unfolding ex_db6_def ex_db5_def ex_db4_def ex_db3_def ex_db2_def ex_db1_def
  by (intro reachable.intros)

lemma find_pair_None:
  "(find (\<lambda>r. a_employee_id r = i \<and> a_date r = d) rs = None)
     \<longleftrightarrow> (i, d) \<notin> (\<lambda>r. (a_employee_id r, a_date r)) ` set rs"
  by (auto simp: find_None_iff)




lemma validate_EmployeeCreate_Some:
  assumes "validate_EmployeeCreate EmailStr body = Some employee"
  shows "ec_employee_id employee = ec_employee_id body"
    and "ec_employee_id employee \<noteq> []"
    and "EmailStr (ec_email body) = Some (ec_email employee)"
  using assms
  by (auto simp: validate_EmployeeCreate_def split: if_splits option.splits)

lemma create_employee_inv:
  assumes "store_inv db" and "ec_employee_id employee \<noteq> []"
  shows "store_inv (snd (create_employee seen fault refresh_fault db employee))"
  using assms
  by (auto simp: create_employee_def split: sum.splits db_exception.splits
      intro: commit_employee_inv)

lemma post_employees_inv:
  assumes "store_inv db"
  shows "store_inv (snd (post_employees EmailStr seen fault refresh_fault db body))"
  using assms
  by (auto simp: post_employees_def split: option.splits
      intro: create_employee_inv dest: validate_EmployeeCreate_Some(2))

lemma mark_attendance_inv:
  assumes "store_inv db"
  shows "store_inv (snd (mark_attendance seen fault refresh_fault db attendance_in))"
  using assms
  by (auto simp: mark_attendance_def split: sum.splits db_exception.splits
      intro: commit_attendance_inv)

lemma post_attendance_inv:
  assumes "store_inv db"
  shows "store_inv (snd (post_attendance seen fault refresh_fault db body))"
  using assms
  by (auto simp: post_attendance_def split: option.splits intro: mark_attendance_inv)

lemma delete_employee_inv:
  assumes "store_inv db"
  shows "store_inv (snd (delete_employee db employee_id))"
  using assms
  by (auto simp: delete_employee_def split: option.splits
      intro: commit_delete_inv dest: find_Some_key)

lemma reachable_store_inv: "reachable EmailStr db \<Longrightarrow> store_inv db"
proof (induction rule: reachable.induct)
  case init
  show ?case by (rule store_inv_empty)
next
  case (create db seen fault refresh_fault body)
  then show ?case by (simp add: post_employees_inv)
next
  case (delete db employee_id)
  then show ?case by (simp add: delete_employee_inv)
next
  case (mark db seen fault refresh_fault body)
  then show ?case by (simp add: post_attendance_inv)
qed

lemma order_by_date_desc_mset: "mset (order_by_date_desc rs) = mset rs"
  by (simp add: order_by_date_desc_def)

lemma order_by_date_desc_sorted:
  "sorted_wrt (\<lambda>x y. a_date y \<le> a_date x) (order_by_date_desc rs)"
proof -
  have "sorted (map a_date (sort_key a_date rs))" by simp
  then have "sorted_wrt (\<lambda>x y. a_date x \<le> a_date y) (sort_key a_date rs)"
    by (simp add: sorted_wrt_map)
  then show ?thesis
    by (simp add: order_by_date_desc_def sorted_wrt_rev)
qed

lemma find_key_Some_ex:
  "k \<in> f ` set xs \<Longrightarrow> \<exists>y. find (\<lambda>x. f x = k) xs = Some y \<and> y \<in> set xs \<and> f y = k"
  by (cases "find (\<lambda>x. f x = k) xs") (auto simp: find_None_iff dest: find_Some_key)

lemma find_key_None: "k \<notin> f ` set xs \<Longrightarrow> find (\<lambda>x. f x = k) xs = None"
  by (simp add: find_None_image)

lemma commit_delete_by_employee_id:
  assumes inv: "store_inv db" and mem: "employee \<in> set (employees db)"
  shows "employees (commit_delete db employee)
           = filter (\<lambda>e. e_employee_id e \<noteq> e_employee_id employee) (employees db)"
    and "attendance (commit_delete db employee)
           = filter (\<lambda>r. a_employee_id r \<noteq> e_employee_id employee) (attendance db)"
proof -
  have inj_pk: "inj_on e_id (set (employees db))"
    and inj_key: "inj_on e_employee_id (set (employees db))"
    using inv by (simp_all add: store_inv_def distinct_map)
  have "(e_id x \<noteq> e_id employee) = (e_employee_id x \<noteq> e_employee_id employee)"
    if "x \<in> set (employees db)" for x
    using that mem inj_pk inj_key by (auto dest: inj_onD)
  then have "filter (\<lambda>e. e_id e \<noteq> e_id employee) (employees db)
               = filter (\<lambda>e. e_employee_id e \<noteq> e_employee_id employee) (employees db)"
    by (intro filter_cong) auto
  then show "employees (commit_delete db employee)
           = filter (\<lambda>e. e_employee_id e \<noteq> e_employee_id employee) (employees db)"
    by (simp add: commit_delete_def)
  show "attendance (commit_delete db employee)
           = filter (\<lambda>r. a_employee_id r \<noteq> e_employee_id employee) (attendance db)"
    by (simp add: commit_delete_def)
qed

lemma order_by_date_desc_eq_Nil: "order_by_date_desc rs = [] \<longleftrightarrow> rs = []"
  using order_by_date_desc_mset [of rs] by (metis mset_zero_iff)

lemma length_filter_split:
  "length (filter (\<lambda>x. P x \<and> Q x) xs) + length (filter (\<lambda>x. P x \<and> \<not> Q x) xs)
     = length (filter P xs)"
  by (induction xs) auto

lemma list_attendance_none_of:
  assumes "i \<noteq> []" and "i \<notin> a_employee_id ` set (attendance db)"
  shows "list_attendance db date_filter (Some i) = []"
  using assms
  by (cases date_filter)
    (auto simp: list_attendance_def Let_def order_by_date_desc_eq_Nil filter_empty_conv)

section \<open>Claim C1\<close>

text \<open>
  C1. Marking attendance for a pair (employee_id, date) that already has a record fails
  with 409 Conflict, whatever is_present the request carries: first when the record is in
  the store the duplicate query reads (the store being one the API can reach, so the owner
  of the record exists), second when both queries pass and only the commit meets the
  record (a healthy store raises IntegrityError, which the handler turns into 409). The
  store is left as it was.
\<close>

theorem mark_attendance_duplicate_conflict:
  "(reachable EmailStr seen
      \<and> (i, d) \<in> (\<lambda>r. (a_employee_id r, a_date r)) ` set (attendance seen)
    \<longrightarrow> mark_attendance seen fault refresh_fault db
          \<lparr>ac_employee_id = i, ac_date = d, ac_is_present = p\<rparr>
          = (Inl (HTTPException HTTP_409_CONFLICT), db))
   \<and> (i \<in> e_employee_id ` set (employees seen)
      \<and> (i, d) \<notin> (\<lambda>r. (a_employee_id r, a_date r)) ` set (attendance seen)
      \<and> (i, d) \<in> (\<lambda>r. (a_employee_id r, a_date r)) ` set (attendance db)
    \<longrightarrow> mark_attendance seen None refresh_fault db
          \<lparr>ac_employee_id = i, ac_date = d, ac_is_present = p\<rparr>
          = (Inl (HTTPException HTTP_409_CONFLICT), db))"
proof (intro conjI impI)
  assume a: "reachable EmailStr seen
      \<and> (i, d) \<in> (\<lambda>r. (a_employee_id r, a_date r)) ` set (attendance seen)"
  then have "store_inv seen" by (blast intro: reachable_store_inv)
  with a have "i \<in> e_employee_id ` set (employees seen)"
    by (auto simp: store_inv_def)
  with a show "mark_attendance seen fault refresh_fault db
          \<lparr>ac_employee_id = i, ac_date = d, ac_is_present = p\<rparr>
          = (Inl (HTTPException HTTP_409_CONFLICT), db)"
    by (simp add: mark_attendance_def find_None_image find_pair_None)
next
  assume "i \<in> e_employee_id ` set (employees seen)
      \<and> (i, d) \<notin> (\<lambda>r. (a_employee_id r, a_date r)) ` set (attendance seen)
      \<and> (i, d) \<in> (\<lambda>r. (a_employee_id r, a_date r)) ` set (attendance db)"
  then show "mark_attendance seen None refresh_fault db
          \<lparr>ac_employee_id = i, ac_date = d, ac_is_present = p\<rparr>
          = (Inl (HTTPException HTTP_409_CONFLICT), db)"
    by (simp add: mark_attendance_def commit_attendance_def find_None_image find_pair_None)
qed

theorem mark_attendance_duplicate_conflict_witness:
  "mark_attendance ex_db2 None None ex_db2 (ex_mark ''E001'' 738886 False)
     = (Inl (HTTPException HTTP_409_CONFLICT), ex_db2)
   \<and> mark_attendance ex_db1 None None ex_db2 (ex_mark ''E001'' 738886 False)
     = (Inl (HTTPException HTTP_409_CONFLICT), ex_db2)"
proof -
  have dup: "(''E001'', 738886) \<in> (\<lambda>r. (a_employee_id r, a_date r)) ` set (attendance ex_db2)"
    by (simp add: ex_db2_eq)
  have nodup: "(''E001'', 738886) \<notin> (\<lambda>r. (a_employee_id r, a_date r)) ` set (attendance ex_db1)"
    by (simp add: ex_db1_eq)
  have emp: "''E001'' \<in> e_employee_id ` set (employees ex_db1)"
    by (simp add: ex_db1_eq)
  have "mark_attendance ex_db2 None None ex_db2 (ex_mark ''E001'' 738886 False)
     = (Inl (HTTPException HTTP_409_CONFLICT), ex_db2)"
    using mark_attendance_duplicate_conflict
      [where EmailStr = ex_EmailStr and seen = ex_db2 and db = ex_db2 and i = "''E001''"
         and d = 738886 and p = False and fault = None]
      reachable_ex_db2 dup
    unfolding ex_mark_def by blast
  moreover have "mark_attendance ex_db1 None None ex_db2 (ex_mark ''E001'' 738886 False)
     = (Inl (HTTPException HTTP_409_CONFLICT), ex_db2)"
    using mark_attendance_duplicate_conflict
      [where seen = ex_db1 and db = ex_db2 and i = "''E001''" and d = 738886 and p = False]
      dup nodup emp
    unfolding ex_mark_def by blast
  ultimately show ?thesis by simp
qed

section \<open>Claim C2\<close>

text \<open>
  C2. When both uniqueness queries of create_employee pass and the commit raises
  IntegrityError (the employee_id or the email was taken in the meantime), the handler
  answers 400 and rolls back; its own queries answer 409 for the same duplicate, and
  mark_attendance answers 409 for the IntegrityError of its commit.
\<close>

theorem create_employee_integrity_error_status:
  "ec_employee_id employee \<notin> e_employee_id ` set (employees seen) \<Longrightarrow>
   ec_email employee \<notin> e_email ` set (employees seen) \<Longrightarrow>
   commit_employee fault db employee = Inl IntegrityError \<Longrightarrow>
   create_employee seen fault refresh_fault db employee
     = (Inl (HTTPException HTTP_400_BAD_REQUEST), db)"
  by (simp add: create_employee_def find_key_None)

text \<open>
  The queries of a request for Alice read the empty store, the commit meets the store in
  which Alice has been created meanwhile: the answer is 400. The same request with its
  queries on that store is answered 409.
\<close>

theorem create_employee_integrity_error_status_witness:
  "create_employee empty_store None None ex_db1 ex_alice
     = (Inl (HTTPException HTTP_400_BAD_REQUEST), ex_db1)
   \<and> create_employee ex_db1 None None ex_db1 ex_alice
     = (Inl (HTTPException HTTP_409_CONFLICT), ex_db1)
   \<and> commit_employee None ex_db1 ex_alice = Inl IntegrityError"
proof -
  have 1: "ec_employee_id ex_alice \<notin> e_employee_id ` set (employees empty_store)"
    and 2: "ec_email ex_alice \<notin> e_email ` set (employees empty_store)"
    by (simp_all add: empty_store_def)
  have 3: "commit_employee None ex_db1 ex_alice = Inl IntegrityError"
    by (simp add: commit_employee_def ex_db1_eq ex_alice_def)
  have 4: "create_employee ex_db1 None None ex_db1 ex_alice
     = (Inl (HTTPException HTTP_409_CONFLICT), ex_db1)"
    by (simp add: create_employee_def ex_db1_eq ex_alice_def)
  from create_employee_integrity_error_status [OF 1 2 3] 3 4 show ?thesis by simp
qed

section \<open>Claim C3\<close>

text \<open>
  C3 as the claim states it fails when the employee_id is already taken and another field
  is empty: the claim asks for Conflict, the request is answered 422 by the schema
  validation, which runs before the handler and its uniqueness queries.
\<close>

theorem post_employees_taken_id_empty_name_counterexample:
  "post_employees ex_EmailStr ex_db1 None None ex_db1 (ex_alice\<lparr>ec_full_name := []\<rparr>)
     = (Inl (HTTPException HTTP_422_UNPROCESSABLE_ENTITY), ex_db1)
   \<and> ec_employee_id (ex_alice\<lparr>ec_full_name := []\<rparr>) \<in> e_employee_id ` set (employees ex_db1)"
  by (simp add: post_employees_def validate_EmployeeCreate_def ex_alice_def ex_db1_eq)

text \<open>
  C3, amended. A create request whose employee_id, full name or department is empty or
  longer than its limit (50, 100, 100), or whose email the validator refuses, fails with
  Validation (422) and leaves the store as it was, whether or not its employee_id or email
  is taken. A request that passes validation, running alone on a healthy store, fails
  with Conflict (409) if an employee has its employee_id, fails with Conflict (409) if an
  employee has its (normalised) email, and otherwise appends exactly one employee, with
  the request's fields and the next primary key, and returns it.
\<close>

theorem post_employees_outcomes:
  "((length (ec_employee_id body) \<notin> {1..50} \<or> length (ec_full_name body) \<notin> {1..100}
       \<or> length (ec_department body) \<notin> {1..100} \<or> EmailStr (ec_email body) = None)
      \<longrightarrow> post_employees EmailStr seen fault refresh_fault db body
            = (Inl (HTTPException HTTP_422_UNPROCESSABLE_ENTITY), db))
   \<and> (length (ec_employee_id body) \<in> {1..50} \<and> length (ec_full_name body) \<in> {1..100}
       \<and> length (ec_department body) \<in> {1..100} \<and> EmailStr (ec_email body) = Some email
      \<longrightarrow> (ec_employee_id body \<in> e_employee_id ` set (employees db)
             \<longrightarrow> post_employees EmailStr db None None db body
                   = (Inl (HTTPException HTTP_409_CONFLICT), db))
          \<and> (email \<in> e_email ` set (employees db)
             \<longrightarrow> post_employees EmailStr db None None db body
                   = (Inl (HTTPException HTTP_409_CONFLICT), db))
          \<and> (ec_employee_id body \<notin> e_employee_id ` set (employees db)
               \<and> email \<notin> e_email ` set (employees db)
             \<longrightarrow> post_employees EmailStr db None None db body
                   = (Inr \<lparr>e_id = employees_autoincrement db,
                           e_employee_id = ec_employee_id body,
                           e_full_name = ec_full_name body,
                           e_email = email,
                           e_department = ec_department body\<rparr>,
                      db\<lparr>employees := employees db
                            @ [\<lparr>e_id = employees_autoincrement db,
                                e_employee_id = ec_employee_id body,
                                e_full_name = ec_full_name body,
                                e_email = email,
                                e_department = ec_department body\<rparr>],
                         employees_autoincrement := Suc (employees_autoincrement db)\<rparr>)))"
proof (intro conjI impI)
  assume "length (ec_employee_id body) \<notin> {1..50} \<or> length (ec_full_name body) \<notin> {1..100}
       \<or> length (ec_department body) \<notin> {1..100} \<or> EmailStr (ec_email body) = None"
  then have "validate_EmployeeCreate EmailStr body = None"
    by (auto simp: validate_EmployeeCreate_def)
  then show "post_employees EmailStr seen fault refresh_fault db body
            = (Inl (HTTPException HTTP_422_UNPROCESSABLE_ENTITY), db)"
    by (simp add: post_employees_def)
next
  assume ok: "length (ec_employee_id body) \<in> {1..50} \<and> length (ec_full_name body) \<in> {1..100}
       \<and> length (ec_department body) \<in> {1..100} \<and> EmailStr (ec_email body) = Some email"
  then have v: "validate_EmployeeCreate EmailStr body = Some (body\<lparr>ec_email := email\<rparr>)"
    by (simp add: validate_EmployeeCreate_def)
  have run: "post_employees EmailStr db None None db body
               = create_employee db None None db (body\<lparr>ec_email := email\<rparr>)"
    by (simp add: post_employees_def v)
  {
    assume "ec_employee_id body \<in> e_employee_id ` set (employees db)"
    then show "post_employees EmailStr db None None db body
                   = (Inl (HTTPException HTTP_409_CONFLICT), db)"
      by (simp add: run create_employee_def find_None_image)
  }
  {
    assume "email \<in> e_email ` set (employees db)"
    then show "post_employees EmailStr db None None db body
                   = (Inl (HTTPException HTTP_409_CONFLICT), db)"
      by (simp add: run create_employee_def find_None_image)
  }
  {
    assume "ec_employee_id body \<notin> e_employee_id ` set (employees db)
               \<and> email \<notin> e_email ` set (employees db)"
    then show "post_employees EmailStr db None None db body
                   = (Inr \<lparr>e_id = employees_autoincrement db,
                           e_employee_id = ec_employee_id body,
                           e_full_name = ec_full_name body,
                           e_email = email,
                           e_department = ec_department body\<rparr>,
                      db\<lparr>employees := employees db
                            @ [\<lparr>e_id = employees_autoincrement db,
                                e_employee_id = ec_employee_id body,
                                e_full_name = ec_full_name body,
                                e_email = email,
                                e_department = ec_department body\<rparr>],
                         employees_autoincrement := Suc (employees_autoincrement db)\<rparr>)"
      by (simp add: run create_employee_def commit_employee_def refresh_def find_None_image
          Let_def)
  }
qed

theorem post_employees_outcomes_witness:
  "post_employees ex_EmailStr ex_db2 None None ex_db2 (ex_bob\<lparr>ec_email := ''bob.x.com''\<rparr>)
     = (Inl (HTTPException HTTP_422_UNPROCESSABLE_ENTITY), ex_db2)
   \<and> post_employees ex_EmailStr ex_db2 None None ex_db2 (ex_bob\<lparr>ec_employee_id := ''E001''\<rparr>)
     = (Inl (HTTPException HTTP_409_CONFLICT), ex_db2)
   \<and> post_employees ex_EmailStr ex_db2 None None ex_db2 (ex_bob\<lparr>ec_email := ''alice@x.com''\<rparr>)
     = (Inl (HTTPException HTTP_409_CONFLICT), ex_db2)
   \<and> post_employees ex_EmailStr ex_db2 None None ex_db2 ex_bob
     = (Inr \<lparr>e_id = 2, e_employee_id = ''E002'', e_full_name = ''Bob'',
             e_email = ''bob@x.com'', e_department = ''Ops''\<rparr>, ex_db3)"
proof -
  note t = post_employees_outcomes [where EmailStr = ex_EmailStr and db = ex_db2]
  have a: "post_employees ex_EmailStr ex_db2 None None ex_db2 (ex_bob\<lparr>ec_email := ''bob.x.com''\<rparr>)
     = (Inl (HTTPException HTTP_422_UNPROCESSABLE_ENTITY), ex_db2)"
    using t [where body = "ex_bob\<lparr>ec_email := ''bob.x.com''\<rparr>" and seen = ex_db2
               and fault = None]
    by (simp add: ex_bob_def ex_EmailStr_def)
  have b: "post_employees ex_EmailStr ex_db2 None None ex_db2 (ex_bob\<lparr>ec_employee_id := ''E001''\<rparr>)
     = (Inl (HTTPException HTTP_409_CONFLICT), ex_db2)"
    using t [where body = "ex_bob\<lparr>ec_employee_id := ''E001''\<rparr>" and email = "''bob@x.com''"]
    by (simp add: ex_bob_def ex_EmailStr_def ex_db2_eq)
  have c: "post_employees ex_EmailStr ex_db2 None None ex_db2 (ex_bob\<lparr>ec_email := ''alice@x.com''\<rparr>)
     = (Inl (HTTPException HTTP_409_CONFLICT), ex_db2)"
    using t [where body = "ex_bob\<lparr>ec_email := ''alice@x.com''\<rparr>"
               and email = "''alice@x.com''"]
    by (simp add: ex_bob_def ex_EmailStr_def ex_db2_eq)
  have d: "post_employees ex_EmailStr ex_db2 None None ex_db2 ex_bob
     = (Inr \<lparr>e_id = 2, e_employee_id = ''E002'', e_full_name = ''Bob'',
             e_email = ''bob@x.com'', e_department = ''Ops''\<rparr>, ex_db3)"
    using t [where body = ex_bob and email = "''bob@x.com''"]
    by (simp add: ex_bob_def ex_EmailStr_def ex_db2_eq ex_db3_eq)
  from a b c d show ?thesis by simp
qed

section \<open>Claim C4\<close>

text \<open>
  C4. Deleting an employee_id that no employee has gives 404 and the same store. Deleting
  one that an employee has, in a store the API can reach, succeeds, and the store after it
  is the old one without that employee and without every attendance record of that
  employee_id, everything else kept in place; listing attendance filtered by that
  employee_id (and by any date or none) then returns the empty list, and fetching the
  employee gives 404.
\<close>

theorem delete_employee_cascade:
  "(employee_id \<notin> e_employee_id ` set (employees db)
      \<longrightarrow> delete_employee db employee_id = (Inl (HTTPException HTTP_404_NOT_FOUND), db))
   \<and> (reachable EmailStr db \<and> employee_id \<in> e_employee_id ` set (employees db)
      \<longrightarrow> fst (delete_employee db employee_id) = Inr ()
          \<and> employees (snd (delete_employee db employee_id))
              = filter (\<lambda>e. e_employee_id e \<noteq> employee_id) (employees db)
          \<and> attendance (snd (delete_employee db employee_id))
              = filter (\<lambda>r. a_employee_id r \<noteq> employee_id) (attendance db)
          \<and> list_attendance (snd (delete_employee db employee_id)) date_filter
               (Some employee_id) = []
          \<and> get_employee (snd (delete_employee db employee_id)) employee_id
              = Inl (HTTPException HTTP_404_NOT_FOUND))"
proof (intro conjI impI)
  assume "employee_id \<notin> e_employee_id ` set (employees db)"
  then show "delete_employee db employee_id = (Inl (HTTPException HTTP_404_NOT_FOUND), db)"
    by (simp add: delete_employee_def find_key_None)
next
  assume a: "reachable EmailStr db \<and> employee_id \<in> e_employee_id ` set (employees db)"
  then have inv: "store_inv db" by (blast intro: reachable_store_inv)
  from a obtain employee where
    f: "find (\<lambda>e. e_employee_id e = employee_id) (employees db) = Some employee"
    and mem: "employee \<in> set (employees db)" and key: "e_employee_id employee = employee_id"
    using find_key_Some_ex [of employee_id e_employee_id "employees db"] by blast
  have run: "delete_employee db employee_id = (Inr (), commit_delete db employee)"
    by (simp add: delete_employee_def f)
  note after = commit_delete_by_employee_id [OF inv mem, unfolded key]
  have ne: "employee_id \<noteq> []"
  proof
    assume "employee_id = []"
    with a have "[] \<in> e_employee_id ` set (employees db)" by simp
    with inv show False by (simp add: store_inv_def)
  qed
  have gone: "employee_id \<notin> a_employee_id ` set (attendance (commit_delete db employee))"
    by (auto simp: after(2))
  show "fst (delete_employee db employee_id) = Inr ()"
    by (simp add: run)
  show "employees (snd (delete_employee db employee_id))
              = filter (\<lambda>e. e_employee_id e \<noteq> employee_id) (employees db)"
    by (simp add: run after(1))
  show "attendance (snd (delete_employee db employee_id))
              = filter (\<lambda>r. a_employee_id r \<noteq> employee_id) (attendance db)"
    by (simp add: run after(2))
  show "list_attendance (snd (delete_employee db employee_id)) date_filter
               (Some employee_id) = []"
    by (simp add: run list_attendance_none_of [OF ne gone])
  have "employee_id \<notin> e_employee_id ` set (employees (commit_delete db employee))"
    by (auto simp: after(1))
  then show "get_employee (snd (delete_employee db employee_id)) employee_id
              = Inl (HTTPException HTTP_404_NOT_FOUND)"
    by (simp add: run get_employee_def find_key_None)
qed

theorem delete_employee_cascade_witness:
  "delete_employee ex_db6 ''E999'' = (Inl (HTTPException HTTP_404_NOT_FOUND), ex_db6)
   \<and> fst (delete_employee ex_db6 ''E001'') = Inr ()
   \<and> employees (snd (delete_employee ex_db6 ''E001''))
       = [\<lparr>e_id = 2, e_employee_id = ''E002'', e_full_name = ''Bob'',
           e_email = ''bob@x.com'', e_department = ''Ops''\<rparr>]
   \<and> attendance (snd (delete_employee ex_db6 ''E001''))
       = [\<lparr>a_id = 2, a_employee_id = ''E002'', a_date = 738887, a_is_present = True\<rparr>]
   \<and> list_attendance (snd (delete_employee ex_db6 ''E001'')) None (Some ''E001'') = []"
proof -
  have 1: "''E999'' \<notin> e_employee_id ` set (employees ex_db6)"
    by (simp add: ex_db6_eq)
  have 2: "''E001'' \<in> e_employee_id ` set (employees ex_db6)"
    by (simp add: ex_db6_eq)
  have 3: "filter (\<lambda>e. e_employee_id e \<noteq> ''E001'') (employees ex_db6)
       = [\<lparr>e_id = 2, e_employee_id = ''E002'', e_full_name = ''Bob'',
           e_email = ''bob@x.com'', e_department = ''Ops''\<rparr>]"
    by (simp add: ex_db6_eq)
  have 4: "filter (\<lambda>r. a_employee_id r \<noteq> ''E001'') (attendance ex_db6)
       = [\<lparr>a_id = 2, a_employee_id = ''E002'', a_date = 738887, a_is_present = True\<rparr>]"
    by (simp add: ex_db6_eq)
  have "delete_employee ex_db6 ''E999'' = (Inl (HTTPException HTTP_404_NOT_FOUND), ex_db6)"
    using delete_employee_cascade [where db = ex_db6 and employee_id = "''E999''"] 1
    by blast
  moreover have "fst (delete_employee ex_db6 ''E001'') = Inr ()
     \<and> employees (snd (delete_employee ex_db6 ''E001''))
         = filter (\<lambda>e. e_employee_id e \<noteq> ''E001'') (employees ex_db6)
     \<and> attendance (snd (delete_employee ex_db6 ''E001''))
         = filter (\<lambda>r. a_employee_id r \<noteq> ''E001'') (attendance ex_db6)
     \<and> list_attendance (snd (delete_employee ex_db6 ''E001'')) None (Some ''E001'') = []"
    using delete_employee_cascade
      [where db = ex_db6 and employee_id = "''E001''" and EmailStr = ex_EmailStr
         and date_filter = None]
      2 reachable_ex_db6
    by blast
  ultimately show ?thesis
    by (simp add: 3 4)
qed

section \<open>Claim C5\<close>

text \<open>
  C5. In every store the API can reach from the empty one - also when the queries of a
  writing request read a stale store, or its commit meets a fault - no two employees share
  an employee_id or an email, no two attendance records share (employee_id, date), and
  every attendance record's employee_id is that of an employee.
\<close>

theorem reachable_integrity:
  "reachable EmailStr db \<Longrightarrow>
     distinct (map e_employee_id (employees db))
     \<and> distinct (map e_email (employees db))
     \<and> distinct (map (\<lambda>r. (a_employee_id r, a_date r)) (attendance db))
     \<and> (\<forall>r \<in> set (attendance db). \<exists>e \<in> set (employees db). e_employee_id e = a_employee_id r)"
proof -
  assume "reachable EmailStr db"
  then have inv: "store_inv db" by (rule reachable_store_inv)
  have "\<forall>r \<in> set (attendance db). \<exists>e \<in> set (employees db). e_employee_id e = a_employee_id r"
  proof
    fix r assume "r \<in> set (attendance db)"
    then have "a_employee_id r \<in> e_employee_id ` set (employees db)"
      using inv by (auto simp: store_inv_def)
    then show "\<exists>e \<in> set (employees db). e_employee_id e = a_employee_id r"
      by auto
  qed
  with inv show ?thesis by (simp add: store_inv_def)
qed

theorem reachable_integrity_witness:
  "distinct (map e_employee_id (employees ex_db6))
   \<and> distinct (map e_email (employees ex_db6))
   \<and> distinct (map (\<lambda>r. (a_employee_id r, a_date r)) (attendance ex_db6))
   \<and> a_employee_id ` set (attendance ex_db6) \<subseteq> e_employee_id ` set (employees ex_db6)
   \<and> length (employees ex_db6) = 2 \<and> length (attendance ex_db6) = 4"
proof -
  have "length (employees ex_db6) = 2 \<and> length (attendance ex_db6) = 4"
    by (simp add: ex_db6_eq)
  moreover have "a_employee_id ` set (attendance ex_db6) \<subseteq> e_employee_id ` set (employees ex_db6)"
    using reachable_integrity [OF reachable_ex_db6] by force
  ultimately show ?thesis
    using reachable_integrity [OF reachable_ex_db6] by simp
qed

section \<open>Claim C6\<close>

text \<open>
  C6. The summary of an employee_id that no employee has is 404. Otherwise it carries the
  employee's employee_id and full name, the number of that employee's records with
  is_present true and the number with is_present false; the two add up to the number of
  that employee's records, and both are 0 when the employee has no record.
\<close>

theorem get_attendance_summary_counts:
  "(employee_id \<notin> e_employee_id ` set (employees db)
      \<longrightarrow> get_attendance_summary db employee_id = Inl (HTTPException HTTP_404_NOT_FOUND))
   \<and> (employee_id \<in> e_employee_id ` set (employees db)
      \<longrightarrow> (\<exists>s. get_attendance_summary db employee_id = Inr s
            \<and> s_employee_id s = employee_id
            \<and> (\<exists>e \<in> set (employees db).
                  e_employee_id e = employee_id \<and> s_full_name s = e_full_name e)
            \<and> total_present_days s
                = length (filter (\<lambda>r. a_employee_id r = employee_id \<and> a_is_present r)
                    (attendance db))
            \<and> total_absent_days s
                = length (filter (\<lambda>r. a_employee_id r = employee_id \<and> \<not> a_is_present r)
                    (attendance db))
            \<and> total_present_days s + total_absent_days s
                = length (filter (\<lambda>r. a_employee_id r = employee_id) (attendance db))
            \<and> (employee_id \<notin> a_employee_id ` set (attendance db)
                \<longrightarrow> total_present_days s = 0 \<and> total_absent_days s = 0)))"
proof (intro conjI impI)
  assume "employee_id \<notin> e_employee_id ` set (employees db)"
  then show "get_attendance_summary db employee_id = Inl (HTTPException HTTP_404_NOT_FOUND)"
    by (simp add: get_attendance_summary_def find_key_None)
next
  assume "employee_id \<in> e_employee_id ` set (employees db)"
  then obtain employee where
    f: "find (\<lambda>e. e_employee_id e = employee_id) (employees db) = Some employee"
    and mem: "employee \<in> set (employees db)" and key: "e_employee_id employee = employee_id"
    using find_key_Some_ex [of employee_id e_employee_id "employees db"] by blast
  let ?P = "length (filter (\<lambda>r. a_employee_id r = employee_id \<and> a_is_present r)
                    (attendance db))"
  let ?A = "length (filter (\<lambda>r. a_employee_id r = employee_id \<and> \<not> a_is_present r)
                    (attendance db))"
  let ?s = "\<lparr>s_employee_id = employee_id, s_full_name = e_full_name employee,
             total_present_days = ?P, total_absent_days = ?A\<rparr>"
  have run: "get_attendance_summary db employee_id = Inr ?s"
    by (simp add: get_attendance_summary_def f key count_scalar_def)
  have total: "?P + ?A = length (filter (\<lambda>r. a_employee_id r = employee_id) (attendance db))"
    by (rule length_filter_split)
  have zero: "employee_id \<notin> a_employee_id ` set (attendance db) \<longrightarrow> ?P = 0 \<and> ?A = 0"
    by (auto simp: filter_empty_conv)
  show "\<exists>s. get_attendance_summary db employee_id = Inr s
            \<and> s_employee_id s = employee_id
            \<and> (\<exists>e \<in> set (employees db).
                  e_employee_id e = employee_id \<and> s_full_name s = e_full_name e)
            \<and> total_present_days s
                = length (filter (\<lambda>r. a_employee_id r = employee_id \<and> a_is_present r)
                    (attendance db))
            \<and> total_absent_days s
                = length (filter (\<lambda>r. a_employee_id r = employee_id \<and> \<not> a_is_present r)
                    (attendance db))
            \<and> total_present_days s + total_absent_days s
                = length (filter (\<lambda>r. a_employee_id r = employee_id) (attendance db))
            \<and> (employee_id \<notin> a_employee_id ` set (attendance db)
                \<longrightarrow> total_present_days s = 0 \<and> total_absent_days s = 0)"
    using run total zero mem key
    by (intro exI [of _ ?s]) auto
qed

theorem get_attendance_summary_counts_witness:
  "get_attendance_summary ex_db6 ''E999'' = Inl (HTTPException HTTP_404_NOT_FOUND)
   \<and> get_attendance_summary ex_db6 ''E001''
       = Inr \<lparr>s_employee_id = ''E001'', s_full_name = ''Alice'', total_present_days = 2,
              total_absent_days = 1\<rparr>
   \<and> get_attendance_summary ex_db3 ''E002''
       = Inr \<lparr>s_employee_id = ''E002'', s_full_name = ''Bob'', total_present_days = 0,
              total_absent_days = 0\<rparr>"
proof -
  have 1: "''E999'' \<notin> e_employee_id ` set (employees ex_db6)"
    by (simp add: ex_db6_eq)
  have 2: "''E001'' \<in> e_employee_id ` set (employees ex_db6)"
    by (simp add: ex_db6_eq)
  have 3: "''E002'' \<in> e_employee_id ` set (employees ex_db3)"
    by (simp add: ex_db3_eq)
  have 4: "''E002'' \<notin> a_employee_id ` set (attendance ex_db3)"
    by (simp add: ex_db3_eq)
  have a: "get_attendance_summary ex_db6 ''E999'' = Inl (HTTPException HTTP_404_NOT_FOUND)"
    using get_attendance_summary_counts [where db = ex_db6 and employee_id = "''E999''"] 1
    by blast
  obtain s where s: "get_attendance_summary ex_db6 ''E001'' = Inr s"
    "s_employee_id s = ''E001''"
    "\<exists>e \<in> set (employees ex_db6). e_employee_id e = ''E001'' \<and> s_full_name s = e_full_name e"
    "total_present_days s
       = length (filter (\<lambda>r. a_employee_id r = ''E001'' \<and> a_is_present r) (attendance ex_db6))"
    "total_absent_days s
       = length (filter (\<lambda>r. a_employee_id r = ''E001'' \<and> \<not> a_is_present r)
           (attendance ex_db6))"
    using get_attendance_summary_counts [where db = ex_db6 and employee_id = "''E001''"] 2
    by blast
  have b: "s = \<lparr>s_employee_id = ''E001'', s_full_name = ''Alice'', total_present_days = 2,
              total_absent_days = 1\<rparr>"
    using s(2-5) by (cases s) (auto simp: ex_db6_eq)
  obtain t where t: "get_attendance_summary ex_db3 ''E002'' = Inr t"
    "s_employee_id t = ''E002''"
    "\<exists>e \<in> set (employees ex_db3). e_employee_id e = ''E002'' \<and> s_full_name t = e_full_name e"
    "total_present_days t = 0 \<and> total_absent_days t = 0"
    using get_attendance_summary_counts [where db = ex_db3 and employee_id = "''E002''"] 3 4
    by blast
  have c: "t = \<lparr>s_employee_id = ''E002'', s_full_name = ''Bob'', total_present_days = 0,
              total_absent_days = 0\<rparr>"
    using t(2-4) by (cases t) (auto simp: ex_db3_eq)
  from a s(1) b t(1) c show ?thesis by simp
qed

section \<open>Claim C7\<close>

text \<open>
  C7. Listing the attendance of an employee_id that no employee has is 404. Otherwise the
  result holds exactly the records of that employee_id whose date is not before start_date
  (when one is given) and not after end_date (when one is given), each once, with the later
  dates first.
\<close>

theorem get_employee_attendance_range:
  "(employee_id \<notin> e_employee_id ` set (employees db)
      \<longrightarrow> get_employee_attendance db employee_id start_date end_date
            = Inl (HTTPException HTTP_404_NOT_FOUND))
   \<and> (employee_id \<in> e_employee_id ` set (employees db)
      \<longrightarrow> (\<exists>rs. get_employee_attendance db employee_id start_date end_date = Inr rs
            \<and> mset rs
                = filter_mset
                    (\<lambda>r. a_employee_id r = employee_id
                       \<and> (case start_date of None \<Rightarrow> True | Some d \<Rightarrow> d \<le> a_date r)
                       \<and> (case end_date of None \<Rightarrow> True | Some d \<Rightarrow> a_date r \<le> d))
                    (mset (attendance db))
            \<and> sorted_wrt (\<lambda>x y. a_date y \<le> a_date x) rs))"
proof (intro conjI impI)
  assume "employee_id \<notin> e_employee_id ` set (employees db)"
  then show "get_employee_attendance db employee_id start_date end_date
            = Inl (HTTPException HTTP_404_NOT_FOUND)"
    by (simp add: get_employee_attendance_def find_key_None)
next
  assume "employee_id \<in> e_employee_id ` set (employees db)"
  then obtain employee where
    f: "find (\<lambda>e. e_employee_id e = employee_id) (employees db) = Some employee"
    using find_key_Some_ex [of employee_id e_employee_id "employees db"] by blast
  let ?keep = "\<lambda>r. a_employee_id r = employee_id
                 \<and> (case start_date of None \<Rightarrow> True | Some d \<Rightarrow> d \<le> a_date r)
                 \<and> (case end_date of None \<Rightarrow> True | Some d \<Rightarrow> a_date r \<le> d)"
  have run: "get_employee_attendance db employee_id start_date end_date
               = Inr (order_by_date_desc (filter ?keep (attendance db)))"
    by (cases start_date; cases end_date)
      (auto simp: get_employee_attendance_def f Let_def intro!: arg_cong [where f = order_by_date_desc] filter_cong)
  show "\<exists>rs. get_employee_attendance db employee_id start_date end_date = Inr rs
            \<and> mset rs = filter_mset ?keep (mset (attendance db))
            \<and> sorted_wrt (\<lambda>x y. a_date y \<le> a_date x) rs"
    by (simp add: run order_by_date_desc_mset order_by_date_desc_sorted)
qed

theorem get_employee_attendance_range_witness:
  "get_employee_attendance ex_db6 ''E999'' None None = Inl (HTTPException HTTP_404_NOT_FOUND)
   \<and> get_employee_attendance ex_db6 ''E001'' (Some 738887) None
       = Inr [\<lparr>a_id = 4, a_employee_id = ''E001'', a_date = 738888, a_is_present = True\<rparr>,
              \<lparr>a_id = 3, a_employee_id = ''E001'', a_date = 738887, a_is_present = False\<rparr>]
   \<and> get_employee_attendance ex_db6 ''E001'' (Some 738886) (Some 738887)
       = Inr [\<lparr>a_id = 3, a_employee_id = ''E001'', a_date = 738887, a_is_present = False\<rparr>,
              \<lparr>a_id = 1, a_employee_id = ''E001'', a_date = 738886, a_is_present = True\<rparr>]
   \<and> sorted_wrt (\<lambda>x y. a_date y \<le> a_date x)
          [\<lparr>a_id = 4, a_employee_id = ''E001'', a_date = 738888, a_is_present = True\<rparr>,
           \<lparr>a_id = 3, a_employee_id = ''E001'', a_date = 738887, a_is_present = False\<rparr>]"
proof -
  have 1: "''E999'' \<notin> e_employee_id ` set (employees ex_db6)"
    by (simp add: ex_db6_eq)
  have a: "get_employee_attendance ex_db6 ''E999'' None None
             = Inl (HTTPException HTTP_404_NOT_FOUND)"
    using get_employee_attendance_range
      [where db = ex_db6 and employee_id = "''E999''" and start_date = None
         and end_date = None] 1
    by blast
  have b: "get_employee_attendance ex_db6 ''E001'' (Some 738887) None
       = Inr [\<lparr>a_id = 4, a_employee_id = ''E001'', a_date = 738888, a_is_present = True\<rparr>,
              \<lparr>a_id = 3, a_employee_id = ''E001'', a_date = 738887, a_is_present = False\<rparr>]"
    by (simp add: get_employee_attendance_def ex_db6_eq order_by_date_desc_def)
  have c: "get_employee_attendance ex_db6 ''E001'' (Some 738886) (Some 738887)
       = Inr [\<lparr>a_id = 3, a_employee_id = ''E001'', a_date = 738887, a_is_present = False\<rparr>,
              \<lparr>a_id = 1, a_employee_id = ''E001'', a_date = 738886, a_is_present = True\<rparr>]"
    by (simp add: get_employee_attendance_def ex_db6_eq order_by_date_desc_def)
  have 2: "''E001'' \<in> e_employee_id ` set (employees ex_db6)"
    by (simp add: ex_db6_eq)
  obtain rs where rs: "get_employee_attendance ex_db6 ''E001'' (Some 738887) None = Inr rs"
    "sorted_wrt (\<lambda>x y. a_date y \<le> a_date x) rs"
    using get_employee_attendance_range
      [where db = ex_db6 and employee_id = "''E001''" and start_date = "Some 738887"
         and end_date = None] 2
    by blast
  from rs b have d: "sorted_wrt (\<lambda>x y. a_date y \<le> a_date x)
          [\<lparr>a_id = 4, a_employee_id = ''E001'', a_date = 738888, a_is_present = True\<rparr>,
           \<lparr>a_id = 3, a_employee_id = ''E001'', a_date = 738887, a_is_present = False\<rparr>]"
    by simp
  from a b c d show ?thesis by simp
qed

section \<open>Claim C8\<close>

text \<open>
  C8 as the claim states it fails when the employee_id filter is supplied as the empty
  string: the claim asks for the records whose employee_id is the empty string (there are
  none), the handler drops the filter and returns every record.
\<close>

theorem list_attendance_empty_filter_counterexample:
  "list_attendance ex_db2 None (Some [])
     = [\<lparr>a_id = 1, a_employee_id = ''E001'', a_date = 738886, a_is_present = True\<rparr>]
   \<and> filter (\<lambda>r. a_employee_id r = []) (attendance ex_db2) = []"
  by (simp add: list_attendance_def ex_db2_eq order_by_date_desc_def)

text \<open>
  C8, amended. Listing attendance returns exactly the records that match every filter in
  force, each once, with the later dates first: the date filter is in force when a date is
  given, the employee_id filter when a non-empty employee_id is given (an empty one counts
  as not given). The result is a plain list: an employee_id that no employee has is not
  an error.
\<close>

theorem list_attendance_filters:
  "mset (list_attendance db date_filter employee_id)
     = filter_mset
         (\<lambda>r. (case date_filter of None \<Rightarrow> True | Some d \<Rightarrow> a_date r = d)
            \<and> (case employee_id of None \<Rightarrow> True | Some i \<Rightarrow> i = [] \<or> a_employee_id r = i))
         (mset (attendance db))
   \<and> sorted_wrt (\<lambda>x y. a_date y \<le> a_date x) (list_attendance db date_filter employee_id)"
proof -
  let ?keep = "\<lambda>r. (case date_filter of None \<Rightarrow> True | Some d \<Rightarrow> a_date r = d)
            \<and> (case employee_id of None \<Rightarrow> True | Some i \<Rightarrow> i = [] \<or> a_employee_id r = i)"
  have run: "list_attendance db date_filter employee_id
               = order_by_date_desc (filter ?keep (attendance db))"
    by (cases date_filter; cases employee_id)
      (auto simp: list_attendance_def Let_def
         intro!: arg_cong [where f = order_by_date_desc] filter_cong)
  show ?thesis
    by (simp add: run order_by_date_desc_mset order_by_date_desc_sorted)
qed

theorem list_attendance_filters_witness:
  "mset (list_attendance ex_db6 (Some 738887) None)
     = {#\<lparr>a_id = 3, a_employee_id = ''E001'', a_date = 738887, a_is_present = False\<rparr>,
         \<lparr>a_id = 2, a_employee_id = ''E002'', a_date = 738887, a_is_present = True\<rparr>#}
   \<and> list_attendance ex_db6 (Some 738887) (Some ''E001'')
     = [\<lparr>a_id = 3, a_employee_id = ''E001'', a_date = 738887, a_is_present = False\<rparr>]
   \<and> list_attendance ex_db6 None (Some ''E999'') = []
   \<and> mset (list_attendance ex_db6 None (Some ''E002''))
     = {#\<lparr>a_id = 2, a_employee_id = ''E002'', a_date = 738887, a_is_present = True\<rparr>#}"
proof -
  have "mset (list_attendance ex_db6 None (Some ''E002''))
     = {#\<lparr>a_id = 2, a_employee_id = ''E002'', a_date = 738887, a_is_present = True\<rparr>#}"
    using list_attendance_filters
      [where db = ex_db6 and date_filter = None and employee_id = "Some ''E002''"]
    by (simp add: ex_db6_eq)
  then show ?thesis
    by (simp add: list_attendance_def ex_db6_eq order_by_date_desc_def)
qed

section \<open>Claim C9\<close>




section \<open>Claim C10\<close>

text \<open>
  C10. When marking attendance succeeds, the attendance table is the old one with the
  returned record appended, that record was not there before, the employees are untouched,
  and the record carries the request's employee_id, date and is_present.
\<close>

theorem mark_attendance_success_frame:
  "mark_attendance seen fault refresh_fault db attendance_in = (Inr r, db') \<Longrightarrow>
     attendance db' = attendance db @ [r]
     \<and> r \<notin> set (attendance db)
     \<and> employees db' = employees db
     \<and> a_employee_id r = ac_employee_id attendance_in
     \<and> a_date r = ac_date attendance_in
     \<and> a_is_present r = ac_is_present attendance_in"
proof -
  assume a: "mark_attendance seen fault refresh_fault db attendance_in = (Inr r, db')"
  then have ok: "commit_attendance fault db attendance_in = Inr (r, db')"
    by (auto simp: mark_attendance_def refresh_def
        split: if_splits sum.splits option.splits)
  note f = commit_attendance_Inr [OF ok]
  have "r \<notin> set (attendance db)"
    using f(2) by (auto simp: f(4) image_iff)
  then show ?thesis
    by (simp add: f(5)) (simp add: f(4))
qed

theorem mark_attendance_success_frame_witness:
  "mark_attendance ex_db2 None None ex_db2 (ex_mark ''E001'' 738887 False)
     = (Inr \<lparr>a_id = 2, a_employee_id = ''E001'', a_date = 738887, a_is_present = False\<rparr>,
        ex_db2\<lparr>attendance := attendance ex_db2
                  @ [\<lparr>a_id = 2, a_employee_id = ''E001'', a_date = 738887, a_is_present = False\<rparr>],
               attendance_autoincrement := 3\<rparr>)
   \<and> \<lparr>a_id = 2, a_employee_id = ''E001'', a_date = 738887, a_is_present = False\<rparr>
       \<notin> set (attendance ex_db2)"
proof -
  have run: "mark_attendance ex_db2 None None ex_db2 (ex_mark ''E001'' 738887 False)
     = (Inr \<lparr>a_id = 2, a_employee_id = ''E001'', a_date = 738887, a_is_present = False\<rparr>,
        ex_db2\<lparr>attendance := attendance ex_db2
                  @ [\<lparr>a_id = 2, a_employee_id = ''E001'', a_date = 738887, a_is_present = False\<rparr>],
               attendance_autoincrement := 3\<rparr>)"
    by (simp add: ex_db2_eq ex_mark_def mark_attendance_def commit_attendance_def refresh_def
        Let_def)
  from mark_attendance_success_frame [OF run] show ?thesis
    using run by simp
qed

end
